theory Spec2Isabelle
  imports Main
begin

section \<open>The context manager of a WebDriver session\<close>

text \<open>
  A shallow embedding of \<^verbatim>\<open>packages/webdriverio/src/context.ts\<close>: the class
  \<^verbatim>\<open>ContextManager\<close>, its two event handlers and its three public methods. Mutation
  of the private fields and of the session object is explicit state passing; a
  rejected promise is the left summand of the result.
\<close>

subsection \<open>JavaScript values\<close>

text \<open>
  The values that reach the manager: the fields \<^verbatim>\<open>event.body.handle\<close>,
  \<^verbatim>\<open>event.body.name\<close> and \<^verbatim>\<open>event.result.value\<close> are read from untyped event
  payloads, and the private fields are optional strings. A value is \<^verbatim>\<open>undefined\<close>,
  \<^verbatim>\<open>null\<close> or a string.
\<close>

datatype jsval = JUndefined | JNull | JStr string

text \<open>JavaScript's conversion to a boolean, as \<^verbatim>\<open>!x\<close> and \<^verbatim>\<open>x ? a : b\<close> apply it.\<close>

fun truthy :: "jsval \<Rightarrow> bool" where
  "truthy JUndefined = False"
| "truthy JNull = False"
| "truthy (JStr s) = (s \<noteq> [])"

text \<open>An entry of \<^verbatim>\<open>process.env\<close> is a string or missing.\<close>

fun env_truthy :: "string option \<Rightarrow> bool" where
  "env_truthy None = False"
| "env_truthy (Some s) = (s \<noteq> [])"

subsection \<open>The session and the events it emits\<close>

text \<open>The reason a promise was rejected with.\<close>

datatype failure = Rejected string

text \<open>
  What the manager reads and writes of the session object \<^verbatim>\<open>WebdriverIO.Browser\<close>, and
  of the process environment it runs in:
  \<^item> \<open>WDIO_UNIT_TESTS\<close> is \<^verbatim>\<open>process.env.WDIO_UNIT_TESTS\<close>;
  \<^item> \<open>isBidi\<close>, \<open>isMobile\<close> and the mutable \<open>isNativeContext\<close> are the session's flags;
  \<^item> \<open>command_listener\<close> and \<open>result_listener\<close> say whether the manager's handler is
    registered with \<^verbatim>\<open>browser.on('command', ...)\<close> and \<^verbatim>\<open>browser.on('result', ...)\<close>;
  \<^item> \<open>windowHandle_outcome n\<close> is how the remote end answers the \<open>n\<close>-th call of
    \<^verbatim>\<open>getWindowHandle()\<close> (a rejection or a handle), and \<open>windowHandle_calls\<close> counts
    the calls made so far.
\<close>

record Browser =
  WDIO_UNIT_TESTS :: "string option"
  isBidi :: bool
  isMobile :: bool
  isNativeContext :: bool
  command_listener :: bool
  result_listener :: bool
  windowHandle_outcome :: "nat \<Rightarrow> failure + string"
  windowHandle_calls :: nat

text \<open>\<^verbatim>\<open>await browser.getWindowHandle()\<close>: one more call, answered by the remote end.\<close>

definition getWindowHandle :: "Browser \<Rightarrow> (failure + string) \<times> Browser" where
  "getWindowHandle b =
     (windowHandle_outcome b (windowHandle_calls b),
      b\<lparr>windowHandle_calls := Suc (windowHandle_calls b)\<rparr>)"

text \<open>A \<^verbatim>\<open>command\<close> event \<^verbatim>\<open>{ command, body: { handle, name } }\<close>.\<close>

record command_event =
  command :: string
  body_handle :: jsval
  body_name :: jsval

text \<open>A \<^verbatim>\<open>result\<close> event \<^verbatim>\<open>{ command, result: { value } }\<close>.\<close>

record result_event =
  result_command :: string
  result_value :: jsval

subsection \<open>The class\<close>

text \<open>The private fields \<^verbatim>\<open>#browser\<close>, \<^verbatim>\<open>#currentContext\<close> and \<^verbatim>\<open>#mobileContext\<close>.\<close>

record ContextManager =
  browser :: Browser
  currentContext :: jsval
  mobileContext :: jsval

text \<open>
  \<^verbatim>\<open>#isEnabled()\<close>:
  \<^verbatim>\<open>!process.env.WDIO_UNIT_TESTS && (this.#browser.isBidi || this.#browser.isMobile)\<close>.
\<close>

definition isEnabled :: "ContextManager \<Rightarrow> bool" where
  "isEnabled this =
     (\<not> env_truthy (WDIO_UNIT_TESTS (browser this)) \<and>
      (isBidi (browser this) \<or> isMobile (browser this)))"

text \<open>
  \<^verbatim>\<open>setCurrentContext(context)\<close>: stores the context, then
  \<^verbatim>\<open>isNativeContext = context ? context === 'NATIVE_APP' : isNativeContext\<close>.
\<close>

definition setCurrentContext :: "jsval \<Rightarrow> ContextManager \<Rightarrow> ContextManager" where
  "setCurrentContext context this =
     this\<lparr>currentContext := context,
          browser := (browser this)\<lparr>isNativeContext :=
            (if truthy context then context = JStr ''NATIVE_APP''
             else isNativeContext (browser this))\<rparr>\<rparr>"

text \<open>
  \<^verbatim>\<open>async initialize()\<close>. A rejected \<^verbatim>\<open>getWindowHandle()\<close> rejects the promise that
  \<^verbatim>\<open>initialize\<close> returns before the assignment to \<^verbatim>\<open>#currentContext\<close>.
\<close>

definition initialize :: "ContextManager \<Rightarrow> (failure + jsval) \<times> ContextManager" where
  "initialize this =
     (if \<not> isEnabled this then (Inr (JStr ''''), this)
      else if isNativeContext (browser this)
        then (Inr (JStr ''NATIVE_APP''), this\<lparr>currentContext := JStr ''NATIVE_APP''\<rparr>)
      else
        (case getWindowHandle (browser this) of
           (Inl e, b) \<Rightarrow> (Inl e, this\<lparr>browser := b\<rparr>)
         | (Inr windowHandle, b) \<Rightarrow>
             (Inr (JStr windowHandle),
              this\<lparr>browser := b, currentContext := JStr windowHandle\<rparr>)))"

text \<open>\<^verbatim>\<open>async getCurrentContext()\<close>.\<close>

definition getCurrentContext :: "ContextManager \<Rightarrow> (failure + jsval) \<times> ContextManager" where
  "getCurrentContext this =
     (if \<not> truthy (currentContext this) then initialize this
      else (Inr (currentContext this), this))"

text \<open>
  The handler the constructor registers for \<^verbatim>\<open>command\<close> events: its three
  \<^verbatim>\<open>if\<close> statements and the unguarded call of the setter between them, in the
  order of the source.
\<close>

definition command_handler :: "command_event \<Rightarrow> ContextManager \<Rightarrow> ContextManager" where
  "command_handler event this =
     (let this1 = (if command event = ''switchToWindow''
                   then setCurrentContext (body_handle event) this else this);
          this2 = (if command event = ''switchToParentFrame'' \<or> command event = ''refresh''
                   then this1\<lparr>currentContext := JUndefined\<rparr> else this1);
          this3 = setCurrentContext (body_handle event) this2
      in if command event = ''switchContext''
         then this3\<lparr>mobileContext := body_name event\<rparr> else this3)"

text \<open>The handler the constructor registers for \<^verbatim>\<open>result\<close> events.\<close>

definition result_handler :: "result_event \<Rightarrow> ContextManager \<Rightarrow> ContextManager" where
  "result_handler event this =
     (let this1 = (if result_command event = ''getContext''
                   then setCurrentContext (result_value event) this else this)
      in if result_command event = ''switchContext'' \<and> result_value event = JNull \<and>
            truthy (mobileContext this1)
         then setCurrentContext (mobileContext this1) this1 else this1)"

text \<open>
  The constructor: it keeps the session, and registers the two handlers unless
  \<^verbatim>\<open>#isEnabled()\<close> is false, in which case it returns at once.
\<close>

definition new_ContextManager :: "Browser \<Rightarrow> ContextManager" where
  "new_ContextManager b =
     (let this = \<lparr>browser = b, currentContext = JUndefined, mobileContext = JUndefined\<rparr>
      in if \<not> isEnabled this then this
         else this\<lparr>browser := (browser this)\<lparr>command_listener := True,
                                                result_listener := True\<rparr>\<rparr>)"

text \<open>
  The session emitting an event: the handler runs, synchronously, when it is
  registered.
\<close>

definition emit_command :: "command_event \<Rightarrow> ContextManager \<Rightarrow> ContextManager" where
  "emit_command event this =
     (if command_listener (browser this) then command_handler event this else this)"

definition emit_result :: "result_event \<Rightarrow> ContextManager \<Rightarrow> ContextManager" where
  "emit_result event this =
     (if result_listener (browser this) then result_handler event this else this)"

subsection \<open>Histories\<close>

text \<open>
  What can happen to a manager after its construction: the session emits an event, or
  a caller invokes one of the three public methods. \<open>run\<close> performs a history and
  collects what each step returned (the two asynchronous methods resolve or reject;
  events and the setter return nothing).
\<close>

datatype action =
    Command command_event
  | Result result_event
  | Initialize
  | GetCurrentContext
  | SetCurrentContext jsval

fun step :: "action \<Rightarrow> ContextManager \<Rightarrow> (failure + jsval) option \<times> ContextManager" where
  "step (Command event) this = (None, emit_command event this)"
| "step (Result event) this = (None, emit_result event this)"
| "step Initialize this = (case initialize this of (r, this') \<Rightarrow> (Some r, this'))"
| "step GetCurrentContext this =
     (case getCurrentContext this of (r, this') \<Rightarrow> (Some r, this'))"
| "step (SetCurrentContext c) this = (None, setCurrentContext c this)"

fun run :: "action list \<Rightarrow> ContextManager \<Rightarrow> (failure + jsval) option list \<times> ContextManager" where
  "run [] this = ([], this)"
| "run (a # as) this =
     (case step a this of (r, this') \<Rightarrow>
        (case run as this' of (rs, this'') \<Rightarrow> (r # rs, this'')))"

subsection \<open>Concrete sessions\<close>

text \<open>
  Sessions on which the theorems below are exercised. None has a handler of the manager
  registered yet. \<open>bidi_session\<close> speaks WebDriver BiDi and answers every
  \<^verbatim>\<open>getWindowHandle()\<close> with \<^verbatim>\<open>h1\<close>; \<open>classic_session\<close> supports neither BiDi nor
  mobile contexts; \<open>mobile_session\<close> is a mobile session; \<open>flaky_session\<close> rejects the
  first \<^verbatim>\<open>getWindowHandle()\<close> and answers the later ones.
\<close>

definition bidi_session :: Browser where
  "bidi_session =
     \<lparr>WDIO_UNIT_TESTS = None, isBidi = True, isMobile = False, isNativeContext = False,
      command_listener = False, result_listener = False,
      windowHandle_outcome = (\<lambda>n. Inr ''h1''), windowHandle_calls = 0\<rparr>"

definition classic_session :: Browser where
  "classic_session = bidi_session\<lparr>isBidi := False\<rparr>"

definition mobile_session :: Browser where
  "mobile_session = bidi_session\<lparr>isBidi := False, isMobile := True\<rparr>"

definition flaky_session :: Browser where
  "flaky_session =
     bidi_session\<lparr>windowHandle_outcome :=
       (\<lambda>n. if n = 0 then Inl (Rejected ''timeout'') else Inr ''h1'')\<rparr>"

lemmas sessions = bidi_session_def classic_session_def mobile_session_def flaky_session_def

lemmas methods = isEnabled_def setCurrentContext_def initialize_def getCurrentContext_def
  getWindowHandle_def command_handler_def result_handler_def new_ContextManager_def
  emit_command_def emit_result_def

section \<open>The setter\<close>

lemma setCurrentContext_fields:
  "currentContext (setCurrentContext c this) = c"
  "mobileContext (setCurrentContext c this) = mobileContext this"
  "isNativeContext (browser (setCurrentContext c this)) =
     (if truthy c then c = JStr ''NATIVE_APP'' else isNativeContext (browser this))"
  by (simp_all add: setCurrentContext_def)

text \<open>
  C1. A call \<open>setCurrentContext context\<close> stores \<open>context\<close> as the current context
  whatever was stored before. The session's native-context flag becomes true when
  \<open>context\<close> is non-empty and equal to \<^verbatim>\<open>NATIVE_APP\<close>, false when it is non-empty and
  different from it, and keeps its value when \<open>context\<close> is empty (\<^verbatim>\<open>undefined\<close>,
  \<^verbatim>\<open>null\<close> or the empty string).
\<close>

theorem setCurrentContext_contract:
  "currentContext (setCurrentContext context this) = context \<and>
   (truthy context \<and> context = JStr ''NATIVE_APP'' \<longrightarrow>
      isNativeContext (browser (setCurrentContext context this))) \<and>
   (truthy context \<and> context \<noteq> JStr ''NATIVE_APP'' \<longrightarrow>
      \<not> isNativeContext (browser (setCurrentContext context this))) \<and>
   (\<not> truthy context \<longrightarrow>
      isNativeContext (browser (setCurrentContext context this)) =
        isNativeContext (browser this))"
  by (simp add: setCurrentContext_def)

theorem setCurrentContext_contract_witness:
  "currentContext (setCurrentContext (JStr ''NATIVE_APP'') (new_ContextManager bidi_session))
     = JStr ''NATIVE_APP'' \<and>
   isNativeContext (browser (setCurrentContext (JStr ''NATIVE_APP'')
        (new_ContextManager bidi_session))) \<and>
   \<not> isNativeContext (browser (setCurrentContext (JStr ''h1'')
        (setCurrentContext (JStr ''NATIVE_APP'') (new_ContextManager bidi_session)))) \<and>
   isNativeContext (browser (setCurrentContext (JStr '''')
        (setCurrentContext (JStr ''NATIVE_APP'') (new_ContextManager bidi_session))))"
  using setCurrentContext_contract [of "JStr ''NATIVE_APP''" "new_ContextManager bidi_session"]
    setCurrentContext_contract [of "JStr ''h1''"
      "setCurrentContext (JStr ''NATIVE_APP'') (new_ContextManager bidi_session)"]
    setCurrentContext_contract [of "JStr ''''"
      "setCurrentContext (JStr ''NATIVE_APP'') (new_ContextManager bidi_session)"]
  by simp

section \<open>Construction and subscriptions\<close>

lemma new_ContextManager_disabled:
  "\<not> isEnabled (new_ContextManager b) \<Longrightarrow>
     new_ContextManager b =
       \<lparr>browser = b, currentContext = JUndefined, mobileContext = JUndefined\<rparr>"
  by (auto simp add: new_ContextManager_def isEnabled_def Let_def)

lemma new_ContextManager_enabled:
  "isEnabled (new_ContextManager b) \<Longrightarrow>
     command_listener (browser (new_ContextManager b)) \<and>
     result_listener (browser (new_ContextManager b))"
  by (auto simp add: new_ContextManager_def isEnabled_def Let_def)

text \<open>
  No action registers or removes a handler: a manager constructed while tracking was
  enabled keeps both handlers over every history.
\<close>

lemma step_keeps_listeners:
  "command_listener (browser (snd (step a this))) = command_listener (browser this) \<and>
   result_listener (browser (snd (step a this))) = result_listener (browser this)"
  by (cases a)
    (simp_all add: methods Let_def split: sum.splits prod.splits)

lemma run_keeps_listeners:
  "command_listener (browser (snd (run as this))) = command_listener (browser this) \<and>
   result_listener (browser (snd (run as this))) = result_listener (browser this)"
proof (induction as arbitrary: this)
  case Nil
  show ?case by simp
next
  case (Cons a as)
  show ?case
    using Cons.IH [of "snd (step a this)"] step_keeps_listeners [of a this]
    by (simp add: split_beta)
qed

section \<open>A manager constructed while tracking is disabled\<close>

text \<open>
  Without a registered handler, without a stored context and with tracking disabled,
  every action but a call of the setter returns the empty string (or nothing) and
  leaves the manager and its session as they were.
\<close>

lemma step_inert:
  assumes "\<not> isEnabled this"
    and "\<not> command_listener (browser this)" and "\<not> result_listener (browser this)"
    and "\<not> truthy (currentContext this)" and "a \<notin> range SetCurrentContext"
  shows "step a this =
    ((case a of Initialize \<Rightarrow> Some (Inr (JStr ''''))
      | GetCurrentContext \<Rightarrow> Some (Inr (JStr '''')) | _ \<Rightarrow> None), this)"
  using assms
  by (cases a)
    (auto simp: emit_command_def emit_result_def initialize_def getCurrentContext_def)

lemma run_inert:
  assumes "\<not> isEnabled this"
    and "\<not> command_listener (browser this)" and "\<not> result_listener (browser this)"
    and "\<not> truthy (currentContext this)" and "set as \<inter> range SetCurrentContext = {}"
  shows "run as this =
    (map (\<lambda>a. case a of Initialize \<Rightarrow> Some (Inr (JStr ''''))
               | GetCurrentContext \<Rightarrow> Some (Inr (JStr '''')) | _ \<Rightarrow> None) as, this)"
  using assms(5)
proof (induction as)
  case Nil
  then show ?case by simp
next
  case (Cons a as)
  from Cons.prems have a: "a \<notin> range SetCurrentContext"
    and as: "set as \<inter> range SetCurrentContext = {}"
    by auto
  show ?case
    by (simp add: step_inert [OF assms(1-4) a] Cons.IH [OF as])
qed

text \<open>
  With tracking disabled and no handler registered, whatever the stored context, only
  a call of the setter changes the manager: events reach no handler,
  \<^verbatim>\<open>initialize()\<close> returns the empty string, and \<^verbatim>\<open>getCurrentContext()\<close> returns
  the stored context when one is stored and the empty string otherwise. The setter
  writes the stored context and the native-context flag and nothing else.
\<close>

lemma run_nth:
  "i < length as \<Longrightarrow>
     fst (run as this) ! i = fst (step (as ! i) (snd (run (take i as) this)))"
proof (induction as arbitrary: i this)
  case Nil
  then show ?case by simp
next
  case (Cons a as)
  show ?case
  proof (cases i)
    case 0
    then show ?thesis by (simp add: split_beta)
  next
    case (Suc j)
    with Cons.prems have "j < length as" by simp
    from Cons.IH [OF this, of "snd (step a this)"] Suc show ?thesis
      by (simp add: split_beta)
  qed
qed

lemma step_disabled:
  assumes "\<not> isEnabled this"
    and "\<not> command_listener (browser this)" and "\<not> result_listener (browser this)"
  shows "step a this =
    ((case a of Initialize \<Rightarrow> Some (Inr (JStr ''''))
      | GetCurrentContext \<Rightarrow>
          Some (Inr (if truthy (currentContext this) then currentContext this else JStr ''''))
      | _ \<Rightarrow> None),
     (case a of SetCurrentContext c \<Rightarrow> setCurrentContext c this | _ \<Rightarrow> this))"
  using assms
  by (cases a)
    (auto simp: emit_command_def emit_result_def initialize_def getCurrentContext_def)

lemma setter_keeps_disabled:
  "isEnabled (setCurrentContext c this) = isEnabled this"
  "command_listener (browser (setCurrentContext c this)) = command_listener (browser this)"
  "result_listener (browser (setCurrentContext c this)) = result_listener (browser this)"
  "(browser (setCurrentContext c this))\<lparr>isNativeContext := x\<rparr> =
     (browser this)\<lparr>isNativeContext := x\<rparr>"
  by (simp_all add: setCurrentContext_def isEnabled_def)

lemma setters_frame:
  "isEnabled (foldl (\<lambda>m a. case a of SetCurrentContext c \<Rightarrow> setCurrentContext c m | _ \<Rightarrow> m)
      this as) = isEnabled this \<and>
   command_listener (browser (foldl
      (\<lambda>m a. case a of SetCurrentContext c \<Rightarrow> setCurrentContext c m | _ \<Rightarrow> m) this as)) =
     command_listener (browser this) \<and>
   result_listener (browser (foldl
      (\<lambda>m a. case a of SetCurrentContext c \<Rightarrow> setCurrentContext c m | _ \<Rightarrow> m) this as)) =
     result_listener (browser this) \<and>
   mobileContext (foldl
      (\<lambda>m a. case a of SetCurrentContext c \<Rightarrow> setCurrentContext c m | _ \<Rightarrow> m) this as) =
     mobileContext this \<and>
   (browser (foldl
      (\<lambda>m a. case a of SetCurrentContext c \<Rightarrow> setCurrentContext c m | _ \<Rightarrow> m) this as))
      \<lparr>isNativeContext := x\<rparr> = (browser this)\<lparr>isNativeContext := x\<rparr>"
proof (induction as arbitrary: this)
  case Nil
  show ?case by simp
next
  case (Cons a as)
  show ?case
    using Cons.IH [of "case a of SetCurrentContext c \<Rightarrow> setCurrentContext c this | _ \<Rightarrow> this"]
    by (cases a) (simp_all add: setter_keeps_disabled setCurrentContext_fields)
qed

lemma run_disabled:
  assumes "\<not> isEnabled this"
    and "\<not> command_listener (browser this)" and "\<not> result_listener (browser this)"
  shows "snd (run as this) =
    foldl (\<lambda>m a. case a of SetCurrentContext c \<Rightarrow> setCurrentContext c m | _ \<Rightarrow> m) this as"
  using assms
proof (induction as arbitrary: this)
  case Nil
  show ?case by simp
next
  case (Cons a as)
  let ?n = "case a of SetCurrentContext c \<Rightarrow> setCurrentContext c this | _ \<Rightarrow> this"
  have nxt: "\<not> isEnabled ?n" "\<not> command_listener (browser ?n)"
    "\<not> result_listener (browser ?n)"
    using Cons.prems by (cases a; simp add: setter_keeps_disabled)+
  show ?case
    using Cons.IH [OF nxt] by (simp add: step_disabled [OF Cons.prems] split_beta)
qed

text \<open>
  C2, as stated, fails: the public setter is not gated by the enablement check. On a
  session that supports neither protocol, a call \<^verbatim>\<open>setCurrentContext('h1')\<close> stores
  \<^verbatim>\<open>h1\<close>, and the next \<^verbatim>\<open>getCurrentContext()\<close> resolves to \<^verbatim>\<open>h1\<close>, not to the empty
  string.
\<close>

theorem disabled_setter_counterexample:
  "\<not> isEnabled (new_ContextManager classic_session) \<and>
   fst (run [SetCurrentContext (JStr ''h1''), GetCurrentContext]
          (new_ContextManager classic_session)) = [None, Some (Inr (JStr ''h1''))] \<and>
   currentContext (snd (run [SetCurrentContext (JStr ''h1''), GetCurrentContext]
          (new_ContextManager classic_session))) = JStr ''h1''"
  by (simp add: methods sessions)

text \<open>
  C2, amended. Let tracking be disabled for a session \<open>b\<close> (unit-test mode is set, or
  the session supports neither protocol) on which no handler of the manager is
  registered yet. Then the constructor registers no subscription: the manager holds the
  session as it was, with both contexts absent. After every history \<open>as\<close> of command
  events, result events and calls of the three public methods:
  \<^item> the manager is in the state that the setter calls of the history alone produce, so
    only a call of the public setter changes anything;
  \<^item> the mobile context is still absent, and the session is as it started but for the
    native-context flag, which only the setter writes: no handle has been fetched and
    no subscription registered;
  \<^item> \<^verbatim>\<open>initialize()\<close> resolves to the empty string and changes nothing;
  \<^item> \<^verbatim>\<open>getCurrentContext()\<close> changes nothing, and resolves to the empty string unless
    the setter has stored a non-empty context, which it then returns;
  \<^item> command and result events change nothing;
  \<^item> accordingly every \<^verbatim>\<open>initialize()\<close> of the history resolved to the empty string,
    and every \<^verbatim>\<open>getCurrentContext()\<close> of the history to the empty string or to the
    non-empty context stored by the setter before it;
  \<^item> when the history has no call of the setter, the manager and the session end exactly
    as they started, both contexts absent, and every call resolved to the empty string.
\<close>

theorem disabled_tracker_inert:
  assumes "\<not> isEnabled (new_ContextManager b)"
    and "\<not> command_listener b" and "\<not> result_listener b"
  shows "new_ContextManager b =
           \<lparr>browser = b, currentContext = JUndefined, mobileContext = JUndefined\<rparr> \<and>
         snd (run as (new_ContextManager b)) =
           foldl (\<lambda>m a. case a of SetCurrentContext c \<Rightarrow> setCurrentContext c m | _ \<Rightarrow> m)
             (new_ContextManager b) as \<and>
         mobileContext (snd (run as (new_ContextManager b))) = JUndefined \<and>
         browser (snd (run as (new_ContextManager b))) =
           b\<lparr>isNativeContext := isNativeContext (browser (snd (run as (new_ContextManager b))))\<rparr> \<and>
         initialize (snd (run as (new_ContextManager b))) =
           (Inr (JStr ''''), snd (run as (new_ContextManager b))) \<and>
         getCurrentContext (snd (run as (new_ContextManager b))) =
           (Inr (if truthy (currentContext (snd (run as (new_ContextManager b))))
                 then currentContext (snd (run as (new_ContextManager b))) else JStr ''''),
            snd (run as (new_ContextManager b))) \<and>
         (\<forall>event. emit_command event (snd (run as (new_ContextManager b))) =
            snd (run as (new_ContextManager b))) \<and>
         (\<forall>event. emit_result event (snd (run as (new_ContextManager b))) =
            snd (run as (new_ContextManager b))) \<and>
         (\<forall>i<length as.
            (as ! i = Initialize \<longrightarrow>
               fst (run as (new_ContextManager b)) ! i = Some (Inr (JStr ''''))) \<and>
            (as ! i = GetCurrentContext \<longrightarrow>
               fst (run as (new_ContextManager b)) ! i =
                 Some (Inr (if truthy (currentContext (snd (run (take i as) (new_ContextManager b))))
                            then currentContext (snd (run (take i as) (new_ContextManager b)))
                            else JStr '''')))) \<and>
         (set as \<inter> range SetCurrentContext = {} \<longrightarrow>
            run as (new_ContextManager b) =
              (map (\<lambda>a. case a of Initialize \<Rightarrow> Some (Inr (JStr ''''))
                         | GetCurrentContext \<Rightarrow> Some (Inr (JStr '''')) | _ \<Rightarrow> None) as,
               new_ContextManager b))"
proof -
  let ?m = "new_ContextManager b"
  let ?f = "\<lambda>m a. case a of SetCurrentContext c \<Rightarrow> setCurrentContext c m | _ \<Rightarrow> m"
  have eq: "?m = \<lparr>browser = b, currentContext = JUndefined, mobileContext = JUndefined\<rparr>"
    using assms(1) by (rule new_ContextManager_disabled)
  have m: "\<not> isEnabled ?m" "\<not> command_listener (browser ?m)"
    "\<not> result_listener (browser ?m)"
    using assms(1) apply assumption
    using assms(2,3) by (simp_all add: eq)
  have after: "snd (run xs ?m) = foldl ?f ?m xs" for xs
    by (rule run_disabled [OF m])
  have inv: "\<not> isEnabled (snd (run xs ?m)) \<and>
      \<not> command_listener (browser (snd (run xs ?m))) \<and>
      \<not> result_listener (browser (snd (run xs ?m)))" for xs
    using m setters_frame [of ?m xs] by (simp add: after)
  have mob: "mobileContext (snd (run as ?m)) = JUndefined"
    using setters_frame [of ?m as] by (simp add: after) (simp add: eq)
  have br: "browser (snd (run as ?m)) =
      b\<lparr>isNativeContext := isNativeContext (browser (snd (run as ?m)))\<rparr>"
  proof -
    have "(browser (snd (run as ?m)))\<lparr>isNativeContext := isNativeContext (browser (snd (run as ?m)))\<rparr>
      = (browser ?m)\<lparr>isNativeContext := isNativeContext (browser (snd (run as ?m)))\<rparr>"
      using setters_frame [of ?m as "isNativeContext (browser (snd (run as ?m)))"]
      by (simp only: after)
    moreover have "browser ?m = b" by (simp add: eq)
    ultimately show ?thesis by simp
  qed
  have init: "initialize (snd (run as ?m)) = (Inr (JStr ''''), snd (run as ?m))"
    using inv [of as] by (simp add: initialize_def)
  have get: "getCurrentContext (snd (run as ?m)) =
      (Inr (if truthy (currentContext (snd (run as ?m)))
            then currentContext (snd (run as ?m)) else JStr ''''), snd (run as ?m))"
    using inv [of as] by (simp add: getCurrentContext_def initialize_def)
  have ev: "emit_command event (snd (run as ?m)) = snd (run as ?m)"
    "emit_result event' (snd (run as ?m)) = snd (run as ?m)" for event event'
    using inv [of as] by (simp_all add: emit_command_def emit_result_def)
  have calls: "(as ! i = Initialize \<longrightarrow> fst (run as ?m) ! i = Some (Inr (JStr ''''))) \<and>
      (as ! i = GetCurrentContext \<longrightarrow>
         fst (run as ?m) ! i =
           Some (Inr (if truthy (currentContext (snd (run (take i as) ?m)))
                      then currentContext (snd (run (take i as) ?m)) else JStr '''')))"
    if "i < length as" for i
  proof -
    from inv [of "take i as"] have
      "step (as ! i) (snd (run (take i as) ?m)) =
        ((case as ! i of Initialize \<Rightarrow> Some (Inr (JStr ''''))
          | GetCurrentContext \<Rightarrow>
              Some (Inr (if truthy (currentContext (snd (run (take i as) ?m)))
                         then currentContext (snd (run (take i as) ?m)) else JStr ''''))
          | _ \<Rightarrow> None),
         (case as ! i of SetCurrentContext c \<Rightarrow> setCurrentContext c (snd (run (take i as) ?m))
          | _ \<Rightarrow> snd (run (take i as) ?m)))"
      by (intro step_disabled) simp_all
    with run_nth [OF that, of ?m] show ?thesis by simp
  qed
  have quiet: "run as ?m =
      (map (\<lambda>a. case a of Initialize \<Rightarrow> Some (Inr (JStr ''''))
                 | GetCurrentContext \<Rightarrow> Some (Inr (JStr '''')) | _ \<Rightarrow> None) as, ?m)"
    if "set as \<inter> range SetCurrentContext = {}"
    by (rule run_inert) (use m that in \<open>simp_all add: eq\<close>)
  from eq after [of as] mob br init get ev calls quiet show ?thesis
    by blast
qed

theorem disabled_tracker_inert_witness:
  "run [Command \<lparr>command = ''switchToWindow'', body_handle = JStr ''h1'',
                 body_name = JUndefined\<rparr>,
        GetCurrentContext, Initialize] (new_ContextManager classic_session) =
     ([None, Some (Inr (JStr '''')), Some (Inr (JStr ''''))],
      \<lparr>browser = classic_session, currentContext = JUndefined, mobileContext = JUndefined\<rparr>) \<and>
   fst (run [SetCurrentContext (JStr ''NATIVE_APP''), Initialize, SetCurrentContext (JStr ''''),
             GetCurrentContext] (new_ContextManager classic_session)) ! 1 =
     Some (Inr (JStr '''')) \<and>
   fst (run [SetCurrentContext (JStr ''NATIVE_APP''), Initialize, SetCurrentContext (JStr ''''),
             GetCurrentContext] (new_ContextManager classic_session)) ! 3 =
     Some (Inr (JStr '''')) \<and>
   snd (run [SetCurrentContext (JStr ''NATIVE_APP''), Initialize, SetCurrentContext (JStr ''''),
             GetCurrentContext] (new_ContextManager classic_session)) =
     \<lparr>browser = classic_session\<lparr>isNativeContext := True\<rparr>, currentContext = JStr '''',
      mobileContext = JUndefined\<rparr>"
  using disabled_tracker_inert [of classic_session
      "[Command \<lparr>command = ''switchToWindow'', body_handle = JStr ''h1'',
                  body_name = JUndefined\<rparr>,
        GetCurrentContext, Initialize]"]
    disabled_tracker_inert [of classic_session
      "[SetCurrentContext (JStr ''NATIVE_APP''), Initialize, SetCurrentContext (JStr ''''),
        GetCurrentContext]"]
  by (simp add: methods sessions)

section \<open>When the enablement is read\<close>

text \<open>
  C3, as stated, fails: \<^verbatim>\<open>initialize()\<close> calls \<^verbatim>\<open>#isEnabled()\<close> again. A manager
  constructed on a BiDi session outside unit-test mode is enabled at construction, and
  its \<^verbatim>\<open>initialize()\<close> fetches the handle \<^verbatim>\<open>h1\<close>; once \<^verbatim>\<open>WDIO_UNIT_TESTS\<close> is set in
  the environment, \<^verbatim>\<open>initialize()\<close> of the same manager returns the empty string and
  changes nothing.
\<close>

theorem enablement_reevaluated_counterexample:
  "isEnabled (new_ContextManager bidi_session) \<and>
   fst (initialize (new_ContextManager bidi_session)) = Inr (JStr ''h1'') \<and>
   initialize ((new_ContextManager bidi_session)
       \<lparr>browser := (browser (new_ContextManager bidi_session))
          \<lparr>WDIO_UNIT_TESTS := Some ''1''\<rparr>\<rparr>) =
     (Inr (JStr ''''), (new_ContextManager bidi_session)
       \<lparr>browser := (browser (new_ContextManager bidi_session))
          \<lparr>WDIO_UNIT_TESTS := Some ''1''\<rparr>\<rparr>)"
  by (simp add: methods sessions)

text \<open>
  C3, amended. The enablement is evaluated at construction, where it decides only
  whether the two handlers are registered (they are registered on the session \<open>b\<close>
  exactly when tracking is enabled then), and again by every \<^verbatim>\<open>initialize()\<close>, hence
  by every \<^verbatim>\<open>getCurrentContext()\<close> that finds no stored context. The outcome of such a
  call depends on the enablement at the time of the call and not on what construction
  left behind: it is the same whichever handlers are registered; it is the empty
  string, with no state change, when tracking is disabled at the call; and it is
  \<^verbatim>\<open>NATIVE_APP\<close> or the outcome of a handle fetch when tracking is enabled at the call.
\<close>

theorem enablement_read_at_call:
  "command_listener (browser (new_ContextManager b)) =
      (isEnabled (new_ContextManager b) \<or> command_listener b) \<and>
   result_listener (browser (new_ContextManager b)) =
      (isEnabled (new_ContextManager b) \<or> result_listener b) \<and>
   fst (initialize (this\<lparr>browser := (browser this)
          \<lparr>command_listener := c, result_listener := r\<rparr>\<rparr>)) = fst (initialize this) \<and>
   (\<not> isEnabled this \<longrightarrow> initialize this = (Inr (JStr ''''), this)) \<and>
   (isEnabled this \<longrightarrow>
      fst (initialize this) =
        (if isNativeContext (browser this) then Inr (JStr ''NATIVE_APP'')
         else case windowHandle_outcome (browser this) (windowHandle_calls (browser this)) of
                Inl e \<Rightarrow> Inl e | Inr windowHandle \<Rightarrow> Inr (JStr windowHandle))) \<and>
   (\<not> truthy (currentContext this) \<longrightarrow> getCurrentContext this = initialize this)"
  by (auto simp add: new_ContextManager_def Let_def initialize_def getCurrentContext_def
      isEnabled_def getWindowHandle_def split: sum.splits)

theorem enablement_read_at_call_witness:
  "initialize ((new_ContextManager bidi_session)
       \<lparr>browser := (browser (new_ContextManager bidi_session))
          \<lparr>WDIO_UNIT_TESTS := Some ''true''\<rparr>\<rparr>) =
     (Inr (JStr ''''), (new_ContextManager bidi_session)
       \<lparr>browser := (browser (new_ContextManager bidi_session))
          \<lparr>WDIO_UNIT_TESTS := Some ''true''\<rparr>\<rparr>) \<and>
   fst (initialize ((new_ContextManager classic_session)
       \<lparr>browser := (browser (new_ContextManager classic_session))\<lparr>isMobile := True\<rparr>\<rparr>)) =
     Inr (JStr ''h1'') \<and>
   getCurrentContext (new_ContextManager bidi_session) =
     initialize (new_ContextManager bidi_session)"
  using enablement_read_at_call [where this = "(new_ContextManager bidi_session)
       \<lparr>browser := (browser (new_ContextManager bidi_session))
          \<lparr>WDIO_UNIT_TESTS := Some ''true''\<rparr>\<rparr>"]
    enablement_read_at_call [where this = "(new_ContextManager classic_session)
       \<lparr>browser := (browser (new_ContextManager classic_session))\<lparr>isMobile := True\<rparr>\<rparr>"]
    enablement_read_at_call [where this = "new_ContextManager bidi_session"]
  by (simp add: methods sessions)

section \<open>Command events\<close>

text \<open>
  The three \<^verbatim>\<open>if\<close> statements of the command handler collapse: whatever the command,
  the handler has the effect of one call of the setter with the handle of the body,
  followed by the bookkeeping of \<^verbatim>\<open>switchContext\<close>.
\<close>

lemma command_handler_eq:
  "command_handler event this =
     (setCurrentContext (body_handle event) this)
       \<lparr>mobileContext := (if command event = ''switchContext'' then body_name event
                          else mobileContext this)\<rparr>"
  by (simp add: command_handler_def setCurrentContext_def Let_def)

text \<open>
  C4. On a manager whose command handler is registered (an enabled tracker), every
  command event, whatever its name, ends with the setter applied to the handle of its
  body: the stored context is that handle. When the body carries no handle (the handle
  is \<^verbatim>\<open>undefined\<close>, \<^verbatim>\<open>null\<close> or empty), the stored context is therefore absent, the
  native-context flag keeps its value, and the next \<^verbatim>\<open>getCurrentContext()\<close> goes
  through \<^verbatim>\<open>initialize()\<close>.
\<close>

theorem command_event_applies_setter:
  assumes "command_listener (browser this)"
  shows "emit_command event this =
           (setCurrentContext (body_handle event) this)
             \<lparr>mobileContext := (if command event = ''switchContext'' then body_name event
                                else mobileContext this)\<rparr> \<and>
         currentContext (emit_command event this) = body_handle event \<and>
         (\<not> truthy (body_handle event) \<longrightarrow>
            \<not> truthy (currentContext (emit_command event this)) \<and>
            isNativeContext (browser (emit_command event this)) =
              isNativeContext (browser this) \<and>
            getCurrentContext (emit_command event this) =
              initialize (emit_command event this))"
  using assms
  by (simp add: emit_command_def command_handler_eq setCurrentContext_fields
      getCurrentContext_def)

theorem command_event_applies_setter_witness:
  "command_listener (browser (new_ContextManager bidi_session)) \<and>
   currentContext (emit_command
      \<lparr>command = ''getTitle'', body_handle = JUndefined, body_name = JUndefined\<rparr>
      (setCurrentContext (JStr ''h1'') (new_ContextManager bidi_session))) = JUndefined \<and>
   fst (getCurrentContext (emit_command
      \<lparr>command = ''getTitle'', body_handle = JUndefined, body_name = JUndefined\<rparr>
      (setCurrentContext (JStr ''h1'') (new_ContextManager bidi_session)))) =
   fst (initialize (emit_command
      \<lparr>command = ''getTitle'', body_handle = JUndefined, body_name = JUndefined\<rparr>
      (setCurrentContext (JStr ''h1'') (new_ContextManager bidi_session))))"
  using command_event_applies_setter
    [of "setCurrentContext (JStr ''h1'') (new_ContextManager bidi_session)"
      "\<lparr>command = ''getTitle'', body_handle = JUndefined, body_name = JUndefined\<rparr>"]
  by (simp add: methods sessions)

text \<open>
  C5. On a manager whose command handler is registered, after a \<^verbatim>\<open>switchToWindow\<close>
  command event whose handle is a non-empty string \<open>h\<close>, the next
  \<^verbatim>\<open>getCurrentContext()\<close> resolves to \<open>h\<close> and leaves the manager and the session
  untouched: no window handle is fetched.
\<close>

theorem switchToWindow_then_read:
  assumes "command_listener (browser this)"
    and "command event = ''switchToWindow''" and "body_handle event = JStr h" and "h \<noteq> []"
  shows "getCurrentContext (emit_command event this) =
           (Inr (JStr h), emit_command event this) \<and>
         windowHandle_calls (browser (snd (getCurrentContext (emit_command event this)))) =
           windowHandle_calls (browser this)"
  using assms
  by (simp add: emit_command_def command_handler_eq getCurrentContext_def
      setCurrentContext_def)

theorem switchToWindow_then_read_witness:
  "getCurrentContext (emit_command
      \<lparr>command = ''switchToWindow'', body_handle = JStr ''h1'', body_name = JUndefined\<rparr>
      (new_ContextManager bidi_session)) =
     (Inr (JStr ''h1''),
      emit_command
        \<lparr>command = ''switchToWindow'', body_handle = JStr ''h1'', body_name = JUndefined\<rparr>
        (new_ContextManager bidi_session)) \<and>
   windowHandle_calls (browser (snd (getCurrentContext (emit_command
      \<lparr>command = ''switchToWindow'', body_handle = JStr ''h1'', body_name = JUndefined\<rparr>
      (new_ContextManager bidi_session))))) = 0"
  using switchToWindow_then_read [of "new_ContextManager bidi_session"
      "\<lparr>command = ''switchToWindow'', body_handle = JStr ''h1'', body_name = JUndefined\<rparr>"
      "''h1''"]
  by (simp add: methods sessions)

section \<open>Result events\<close>

text \<open>
  C6. On a manager whose result handler is registered, a \<^verbatim>\<open>getContext\<close> result event
  has the effect of the setter applied to the value of the result: the value becomes
  the current context; after the value \<^verbatim>\<open>ctx-42\<close> the native-context flag is false,
  after the value \<^verbatim>\<open>NATIVE_APP\<close> it is true.
\<close>

theorem getContext_result_adopted:
  assumes "result_listener (browser this)" and "result_command event = ''getContext''"
  shows "emit_result event this = setCurrentContext (result_value event) this \<and>
         currentContext (emit_result event this) = result_value event \<and>
         (result_value event = JStr ''ctx-42'' \<longrightarrow>
            \<not> isNativeContext (browser (emit_result event this))) \<and>
         (result_value event = JStr ''NATIVE_APP'' \<longrightarrow>
            isNativeContext (browser (emit_result event this)))"
  using assms
  by (simp add: emit_result_def result_handler_def setCurrentContext_def)

theorem getContext_result_adopted_witness:
  "currentContext (emit_result
      \<lparr>result_command = ''getContext'', result_value = JStr ''ctx-42''\<rparr>
      (new_ContextManager mobile_session)) = JStr ''ctx-42'' \<and>
   \<not> isNativeContext (browser (emit_result
      \<lparr>result_command = ''getContext'', result_value = JStr ''ctx-42''\<rparr>
      (new_ContextManager mobile_session))) \<and>
   currentContext (emit_result
      \<lparr>result_command = ''getContext'', result_value = JStr ''NATIVE_APP''\<rparr>
      (new_ContextManager mobile_session)) = JStr ''NATIVE_APP'' \<and>
   isNativeContext (browser (emit_result
      \<lparr>result_command = ''getContext'', result_value = JStr ''NATIVE_APP''\<rparr>
      (new_ContextManager mobile_session)))"
  using getContext_result_adopted [of "new_ContextManager mobile_session"
      "\<lparr>result_command = ''getContext'', result_value = JStr ''ctx-42''\<rparr>"]
    getContext_result_adopted [of "new_ContextManager mobile_session"
      "\<lparr>result_command = ''getContext'', result_value = JStr ''NATIVE_APP''\<rparr>"]
  by (simp add: methods sessions)

text \<open>
  C7. Let both handlers be registered. A \<^verbatim>\<open>switchContext\<close> command event with the
  name \<open>n\<close> stores \<open>n\<close> as the mobile context. When a \<^verbatim>\<open>switchContext\<close> result event
  whose value is \<^verbatim>\<open>null\<close> arrives later, in any state \<open>that\<close> whose mobile context still
  holds the remembered name \<open>n\<close> (a non-empty string, as the guard
  \<^verbatim>\<open>this.#mobileContext\<close> asks), the event has the effect of the setter applied to
  \<open>n\<close>, so \<open>n\<close> is the current context. A \<^verbatim>\<open>switchContext\<close> result with any other
  value, in particular a non-empty one, changes nothing.
\<close>

theorem switchContext_result_fallback:
  assumes "command_listener (browser this)" and "result_listener (browser that)"
    and "truthy n" and "mobileContext that = n"
  shows "mobileContext (emit_command
           \<lparr>command = ''switchContext'', body_handle = h, body_name = n\<rparr> this) = n \<and>
         emit_result \<lparr>result_command = ''switchContext'', result_value = JNull\<rparr> that =
           setCurrentContext n that \<and>
         currentContext (emit_result
           \<lparr>result_command = ''switchContext'', result_value = JNull\<rparr> that) = n \<and>
         (v \<noteq> JNull \<longrightarrow>
            emit_result \<lparr>result_command = ''switchContext'', result_value = v\<rparr> that = that)"
  using assms
  by (simp add: emit_command_def command_handler_eq emit_result_def result_handler_def
      setCurrentContext_fields)

theorem switchContext_result_fallback_witness:
  "fst (run [Command \<lparr>command = ''switchContext'', body_handle = JUndefined,
                      body_name = JStr ''WEBVIEW_1''\<rparr>,
             Result \<lparr>result_command = ''switchContext'', result_value = JNull\<rparr>,
             GetCurrentContext] (new_ContextManager mobile_session)) =
     [None, None, Some (Inr (JStr ''WEBVIEW_1''))] \<and>
   emit_result \<lparr>result_command = ''switchContext'', result_value = JStr ''WEBVIEW_2''\<rparr>
     (emit_command \<lparr>command = ''switchContext'', body_handle = JUndefined,
                     body_name = JStr ''WEBVIEW_1''\<rparr> (new_ContextManager mobile_session)) =
     emit_command \<lparr>command = ''switchContext'', body_handle = JUndefined,
                    body_name = JStr ''WEBVIEW_1''\<rparr> (new_ContextManager mobile_session)"
  using switchContext_result_fallback [of "new_ContextManager mobile_session"
      "emit_command \<lparr>command = ''switchContext'', body_handle = JUndefined,
                     body_name = JStr ''WEBVIEW_1''\<rparr> (new_ContextManager mobile_session)"
      "JStr ''WEBVIEW_1''" JUndefined "JStr ''WEBVIEW_2''"]
  by (simp add: methods sessions)

section \<open>Reading the context after a reset\<close>

text \<open>
  C8, as stated, fails where the session is in a native context: lazy initialization
  then adopts \<^verbatim>\<open>NATIVE_APP\<close> and fetches nothing. On a mobile session, a \<^verbatim>\<open>getContext\<close>
  result \<^verbatim>\<open>NATIVE_APP\<close> sets the native-context flag; a \<^verbatim>\<open>refresh\<close> command event
  without a handle then clears the stored context and leaves the flag set; the next
  \<^verbatim>\<open>getCurrentContext()\<close> resolves to \<^verbatim>\<open>NATIVE_APP\<close> and \<^verbatim>\<open>getWindowHandle()\<close> has
  not been called.
\<close>

theorem reset_command_native_counterexample:
  "isEnabled (new_ContextManager mobile_session) \<and>
   command_listener (browser (new_ContextManager mobile_session)) \<and>
   fst (run [Result \<lparr>result_command = ''getContext'', result_value = JStr ''NATIVE_APP''\<rparr>,
             Command \<lparr>command = ''refresh'', body_handle = JUndefined,
                      body_name = JUndefined\<rparr>,
             GetCurrentContext] (new_ContextManager mobile_session)) =
     [None, None, Some (Inr (JStr ''NATIVE_APP''))] \<and>
   windowHandle_calls (browser (snd (run
            [Result \<lparr>result_command = ''getContext'', result_value = JStr ''NATIVE_APP''\<rparr>,
             Command \<lparr>command = ''refresh'', body_handle = JUndefined,
                      body_name = JUndefined\<rparr>,
             GetCurrentContext] (new_ContextManager mobile_session)))) = 0"
  by (simp add: methods sessions)

text \<open>
  C8, amended. On a manager whose command handler is registered, a
  \<^verbatim>\<open>switchToParentFrame\<close> or \<^verbatim>\<open>refresh\<close> command event clears the stored context and
  then applies the setter to the handle of the body. When that handle is empty, the
  stored context is absent afterwards, the native-context flag keeps its value, and the
  next \<^verbatim>\<open>getCurrentContext()\<close> goes through \<^verbatim>\<open>initialize()\<close>: with tracking enabled,
  it performs exactly one handle fetch and resolves to (or rejects with) its outcome
  when the session is not in a native context, and it resolves to \<^verbatim>\<open>NATIVE_APP\<close>
  without a fetch when the session is in a native context.
\<close>

theorem reset_command_reinitializes:
  assumes "command_listener (browser this)"
    and "command event = ''switchToParentFrame'' \<or> command event = ''refresh''"
  shows "emit_command event this =
           setCurrentContext (body_handle event) (this\<lparr>currentContext := JUndefined\<rparr>) \<and>
         (\<not> truthy (body_handle event) \<longrightarrow>
            currentContext (emit_command event this) = body_handle event \<and>
            isNativeContext (browser (emit_command event this)) =
              isNativeContext (browser this) \<and>
            getCurrentContext (emit_command event this) =
              initialize (emit_command event this) \<and>
            (isEnabled this \<and> \<not> isNativeContext (browser this) \<longrightarrow>
               fst (getCurrentContext (emit_command event this)) =
                 (case windowHandle_outcome (browser this) (windowHandle_calls (browser this))
                  of Inl e \<Rightarrow> Inl e | Inr windowHandle \<Rightarrow> Inr (JStr windowHandle)) \<and>
               windowHandle_calls
                   (browser (snd (getCurrentContext (emit_command event this)))) =
                 Suc (windowHandle_calls (browser this))) \<and>
            (isEnabled this \<and> isNativeContext (browser this) \<longrightarrow>
               fst (getCurrentContext (emit_command event this)) =
                 Inr (JStr ''NATIVE_APP'') \<and>
               windowHandle_calls
                   (browser (snd (getCurrentContext (emit_command event this)))) =
                 windowHandle_calls (browser this)))"
  using assms
  by (auto simp add: emit_command_def command_handler_def setCurrentContext_def Let_def
      getCurrentContext_def initialize_def isEnabled_def getWindowHandle_def
      split: sum.splits)

theorem reset_command_reinitializes_witness:
  "fst (run [Command \<lparr>command = ''switchToWindow'', body_handle = JStr ''h0'',
                      body_name = JUndefined\<rparr>,
             Command \<lparr>command = ''switchToParentFrame'', body_handle = JUndefined,
                      body_name = JUndefined\<rparr>,
             GetCurrentContext] (new_ContextManager bidi_session)) =
     [None, None, Some (Inr (JStr ''h1''))] \<and>
   windowHandle_calls (browser (snd (getCurrentContext (emit_command
      \<lparr>command = ''switchToParentFrame'', body_handle = JUndefined, body_name = JUndefined\<rparr>
      (emit_command
        \<lparr>command = ''switchToWindow'', body_handle = JStr ''h0'', body_name = JUndefined\<rparr>
        (new_ContextManager bidi_session)))))) = 1"
  using reset_command_reinitializes [of
      "emit_command
        \<lparr>command = ''switchToWindow'', body_handle = JStr ''h0'', body_name = JUndefined\<rparr>
        (new_ContextManager bidi_session)"
      "\<lparr>command = ''switchToParentFrame'', body_handle = JUndefined,
        body_name = JUndefined\<rparr>"]
  by (simp add: methods sessions)

section \<open>Lazy initialization and its failure\<close>

text \<open>
  C9. Let tracking be enabled and the session not be in a native context. When the
  \<^verbatim>\<open>getWindowHandle()\<close> call of \<^verbatim>\<open>initialize()\<close> is rejected with \<open>e\<close>, then
  \<^verbatim>\<open>initialize()\<close> is rejected with the same \<open>e\<close>, exactly one call has been made (no
  retry), and nothing else has changed: the stored context is what it was. The same
  holds of a \<^verbatim>\<open>getCurrentContext()\<close> that finds no stored context: the context is
  still absent afterwards, so the next \<^verbatim>\<open>getCurrentContext()\<close> goes through
  \<^verbatim>\<open>initialize()\<close> again and returns the outcome of the next handle fetch.
\<close>

theorem initialize_failure_propagates:
  assumes "isEnabled this" and "\<not> isNativeContext (browser this)"
    and "windowHandle_outcome (browser this) (windowHandle_calls (browser this)) = Inl e"
  shows "initialize this =
           (Inl e, this\<lparr>browser := (browser this)
              \<lparr>windowHandle_calls := Suc (windowHandle_calls (browser this))\<rparr>\<rparr>) \<and>
         currentContext (snd (initialize this)) = currentContext this \<and>
         (\<not> truthy (currentContext this) \<longrightarrow>
            getCurrentContext this = initialize this \<and>
            \<not> truthy (currentContext (snd (getCurrentContext this))) \<and>
            getCurrentContext (snd (getCurrentContext this)) =
              initialize (snd (getCurrentContext this)) \<and>
            fst (getCurrentContext (snd (getCurrentContext this))) =
              (case windowHandle_outcome (browser this)
                      (Suc (windowHandle_calls (browser this)))
               of Inl e' \<Rightarrow> Inl e' | Inr windowHandle \<Rightarrow> Inr (JStr windowHandle)))"
  using assms
  by (auto simp add: getCurrentContext_def initialize_def isEnabled_def getWindowHandle_def
      split: sum.splits)

theorem initialize_failure_propagates_witness:
  "run [GetCurrentContext] (new_ContextManager flaky_session) =
     ([Some (Inl (Rejected ''timeout''))],
      (new_ContextManager flaky_session)
        \<lparr>browser := (browser (new_ContextManager flaky_session))
           \<lparr>windowHandle_calls := 1\<rparr>\<rparr>) \<and>
   currentContext (snd (initialize (new_ContextManager flaky_session))) = JUndefined"
  using initialize_failure_propagates
    [of "new_ContextManager flaky_session" "Rejected ''timeout''"]
  by (simp add: methods sessions)

text \<open>
  C10, as stated, fails: a rejected fetch stores nothing, so the second call fetches
  again. On a session whose first \<^verbatim>\<open>getWindowHandle()\<close> is rejected and whose second one
  answers \<^verbatim>\<open>h1\<close>, two \<^verbatim>\<open>getCurrentContext()\<close> calls in a row end differently (the first
  is rejected, the second resolves to \<^verbatim>\<open>h1\<close>) and fetch the handle twice.
\<close>

theorem getCurrentContext_twice_counterexample:
  "fst (run [GetCurrentContext, GetCurrentContext] (new_ContextManager flaky_session)) =
     [Some (Inl (Rejected ''timeout'')), Some (Inr (JStr ''h1''))] \<and>
   windowHandle_calls (browser (snd (run [GetCurrentContext, GetCurrentContext]
     (new_ContextManager flaky_session)))) = 2"
  by (simp add: methods sessions)

text \<open>
  C10, amended. For every manager and every starting state in which a first
  \<^verbatim>\<open>getCurrentContext()\<close> resolves to a value \<open>v\<close>, where \<open>v\<close> is non-empty or tracking
  is disabled: a second \<^verbatim>\<open>getCurrentContext()\<close>, with no event in between, resolves to
  the same \<open>v\<close>, changes nothing and fetches nothing, so the window handle is fetched
  at most once across the two calls.
\<close>

theorem getCurrentContext_twice:
  assumes "getCurrentContext this = (Inr v, this')" and "truthy v \<or> \<not> isEnabled this"
  shows "getCurrentContext this' = (Inr v, this') \<and>
         windowHandle_calls (browser this') \<le> Suc (windowHandle_calls (browser this)) \<and>
         windowHandle_calls (browser (snd (getCurrentContext this'))) =
           windowHandle_calls (browser this')"
  using assms
  by (auto simp add: getCurrentContext_def initialize_def isEnabled_def getWindowHandle_def
      split: if_splits sum.splits)

theorem getCurrentContext_twice_witness:
  "run [GetCurrentContext, GetCurrentContext] (new_ContextManager bidi_session) =
     ([Some (Inr (JStr ''h1'')), Some (Inr (JStr ''h1''))],
      (new_ContextManager bidi_session)
        \<lparr>browser := (browser (new_ContextManager bidi_session))\<lparr>windowHandle_calls := 1\<rparr>,
         currentContext := JStr ''h1''\<rparr>)"
  using getCurrentContext_twice [of "new_ContextManager bidi_session" "JStr ''h1''"
      "(new_ContextManager bidi_session)
        \<lparr>browser := (browser (new_ContextManager bidi_session))\<lparr>windowHandle_calls := 1\<rparr>,
         currentContext := JStr ''h1''\<rparr>"]
  by (simp add: methods sessions)

end
